theory Spec2Isabelle
  imports Main
begin

section \<open>The PGN-to-table conversion script \<open>pgn_reading.py\<close>\<close>

text \<open>
  The script reads chess games from a PGN file with the \<open>chess.pgn\<close> library, renders
  the first 40 half-moves of each game in standard algebraic notation, appends the
  game's \<open>Result\<close> header, collects the rows in a \<open>pandas\<close> table with 41 named
  columns and writes the table to \<open>data.csv\<close>.

  The two libraries are not part of the script. Of \<open>chess.pgn\<close> the script uses
  \<open>read_game\<close>, \<open>board.san\<close> and \<open>board.push\<close>: they are parameters of the model,
  over an abstract type \<open>'f\<close> of open file handles, \<open>'b\<close> of boards and \<open>'m\<close> of moves.
  A parsed game is a record of what the script reads from it. The three calls are taken
  where they return: the moves of a parsed main line are legal, so \<open>board.san\<close> and
  \<open>board.push\<close> return on them, and \<open>read_game\<close> returns a game or \<open>None\<close>.
  What the library's \<open>read_game\<close> returns for a game of the file is described
  further down, by \<open>parse_game\<close>.
  Of \<open>pandas\<close> the script uses the table constructor on a list of lists and
  \<open>to_csv\<close>: both are modelled by what they do on such a list.
\<close>

subsection \<open>Errors and data\<close>

datatype py_error =
    FileNotFoundError string
  | KeyError string
  | ValueError nat nat

text \<open>
  \<open>game.board()\<close> is the position the game starts from, \<open>game.mainline_moves()\<close>
  the moves of its main line, \<open>game.headers\<close> the mapping of its header tags.
\<close>

record ('b, 'm) game =
  board :: 'b
  mainline_moves :: "'m list"
  headers :: "string \<rightharpoonup> string"

subsection \<open>The move loop (lines 13 to 20)\<close>

text \<open>
  \<^verbatim>\<open>
  for move in game.mainline_moves():
      moves.append(board.san(move))
      board.push(move)
      if len(moves) == 40:
          break
  \<close>
  The loop state is the board and the list \<open>moves\<close>; the last argument is what is left
  of the iteration.
\<close>

fun render_moves ::
  "('b \<Rightarrow> 'm \<Rightarrow> string) \<Rightarrow> ('b \<Rightarrow> 'm \<Rightarrow> 'b) \<Rightarrow> 'b \<Rightarrow> string list \<Rightarrow> 'm list \<Rightarrow> string list"
where
  "render_moves san push b moves [] = moves"
| "render_moves san push b moves (mv # rest) =
     (let moves' = moves @ [san b mv];
          b' = push b mv
      in if length moves' = 40 then moves' else render_moves san push b' moves' rest)"

subsection \<open>One row (lines 13 to 24)\<close>

text \<open>
  \<open>game.headers["Result"]\<close> raises \<open>KeyError\<close> when the mapping has no such key; the
  move loop has run by then.
\<close>

definition game_row ::
  "('b \<Rightarrow> 'm \<Rightarrow> string) \<Rightarrow> ('b \<Rightarrow> 'm \<Rightarrow> 'b) \<Rightarrow> ('b, 'm) game \<Rightarrow> py_error + string list"
where
  "game_row san push g =
     (let moves = render_moves san push (board g) [] (mainline_moves g)
      in case headers g ''Result'' of
           None \<Rightarrow> Inl (KeyError ''Result'')
         | Some result \<Rightarrow> Inr (moves @ [result]))"

subsection \<open>The reading loop (lines 5 to 24)\<close>

text \<open>
  \<^verbatim>\<open>
  while True:
      game = chess.pgn.read_game(f)
      if game is None:
          break
      ...
      games.append(moves)
  \<close>
  \<open>read_game\<close> returns the next game, or \<open>None\<close> at the end of the input, and advances
  the handle. Nothing in the script bounds the loop, so it is a partial function: the
  value \<open>None\<close> is a run that never leaves the loop.
\<close>

partial_function (option) read_loop ::
  "('f \<Rightarrow> ('b, 'm) game option \<times> 'f) \<Rightarrow> ('b \<Rightarrow> 'm \<Rightarrow> string) \<Rightarrow> ('b \<Rightarrow> 'm \<Rightarrow> 'b) \<Rightarrow>
   'f \<Rightarrow> string list list \<Rightarrow> (py_error + string list list) option"
where
  "read_loop read_game san push f games =
     (case read_game f of
        (None, f') \<Rightarrow> Some (Inr games)
      | (Some g, f') \<Rightarrow>
          (case game_row san push g of
             Inl e \<Rightarrow> Some (Inl e)
           | Inr moves \<Rightarrow> read_loop read_game san push f' (games @ [moves])))"

subsection \<open>The table (lines 26 to 28)\<close>

text \<open>
  \<open>f"Ply {i+1}"\<close> prints the integer in decimal.
\<close>

definition digit :: "nat \<Rightarrow> char" where
  "digit d = ''0123456789'' ! d"

function str_nat :: "nat \<Rightarrow> string" where
  "str_nat n = (if n < 10 then [digit n] else str_nat (n div 10) @ [digit (n mod 10)])"
  by pat_completeness auto
termination
  by (relation "measure id") auto

declare str_nat.simps [simp del]

definition column_names :: "string list" where
  "column_names = map (\<lambda>i. ''Ply '' @ str_nat (i + 1)) [0..<40] @ [''Result'']"

text \<open>
  A table is its column labels and its rows of cells; a cell with no value is \<open>None\<close>.

  \<open>pd.DataFrame(games, columns=column_names)\<close> on a list of lists: an empty list gives
  the table of the labels with no rows. Otherwise the rows are laid out in an array as
  wide as the longest row, a shorter row keeping its values on the left and having no
  value in the cells after them; and the constructor raises \<open>ValueError\<close>
  (\<open>"41 columns passed, passed data had 4 columns"\<close>) unless there are as many labels
  as the array is wide.
\<close>

record dataframe =
  columns :: "string list"
  cells :: "string option list list"

definition width :: "'a list list \<Rightarrow> nat" where
  "width rows = fold max (map length rows) 0"

definition pad :: "nat \<Rightarrow> 'a list \<Rightarrow> 'a option list" where
  "pad k row = map Some row @ replicate (k - length row) None"

definition DataFrame :: "string list list \<Rightarrow> string list \<Rightarrow> py_error + dataframe" where
  "DataFrame rows cols =
     (if rows = [] then Inr \<lparr>columns = cols, cells = []\<rparr>
      else if length cols \<noteq> width rows then Inl (ValueError (length cols) (width rows))
      else Inr \<lparr>columns = cols, cells = map (pad (width rows)) rows\<rparr>)"

text \<open>
  \<open>with open(pgn_file) as f\<close> raises \<open>FileNotFoundError\<close> when there is no such file.
  The readable files are a map from paths to open handles.
\<close>

definition pgn_to_dataframe ::
  "('f \<Rightarrow> ('b, 'm) game option \<times> 'f) \<Rightarrow> ('b \<Rightarrow> 'm \<Rightarrow> string) \<Rightarrow> ('b \<Rightarrow> 'm \<Rightarrow> 'b) \<Rightarrow>
   (string \<rightharpoonup> 'f) \<Rightarrow> string \<Rightarrow> (py_error + dataframe) option"
where
  "pgn_to_dataframe read_game san push fs pgn_file =
     (case fs pgn_file of
        None \<Rightarrow> Some (Inl (FileNotFoundError pgn_file))
      | Some f \<Rightarrow>
          (case read_loop read_game san push f [] of
             None \<Rightarrow> None
           | Some (Inl e) \<Rightarrow> Some (Inl e)
           | Some (Inr games) \<Rightarrow> Some (DataFrame games column_names)))"

subsection \<open>Writing the file (lines 30 to 34)\<close>

text \<open>
  \<open>to_csv(index=False)\<close> writes the labels and then each row, the fields of a line
  separated by commas and a cell with no value written as the empty field. A field that
  holds a comma, a double quote or a line break is put in double quotes, its double
  quotes doubled. The written file is the list of its lines.
\<close>

definition quote_field :: "string \<Rightarrow> string" where
  "quote_field s =
     (if filter (\<lambda>c. c \<in> set [CHR '','', CHR 0x22, CHR 0x0A, CHR 0x0D]) s = [] then s
      else [CHR 0x22] @ concat (map (\<lambda>c. if c = CHR 0x22 then [c, c] else [c]) s) @ [CHR 0x22])"

definition csv_field :: "string option \<Rightarrow> string" where
  "csv_field v = (case v of None \<Rightarrow> [] | Some s \<Rightarrow> quote_field s)"

fun join :: "string \<Rightarrow> string list \<Rightarrow> string" where
  "join sep [] = []"
| "join sep [s] = s"
| "join sep (s # t # ss) = s @ sep @ join sep (t # ss)"

definition csv_line :: "string option list \<Rightarrow> string" where
  "csv_line vs = join '','' (map csv_field vs)"

definition to_csv :: "dataframe \<Rightarrow> string list" where
  "to_csv df = csv_line (map Some (columns df)) # map csv_line (cells df)"

text \<open>
  The script proper. Its world is the readable files, what \<open>print\<close> has been given
  and the files written so far. An error ends the run where it is raised, so the world
  is returned with the outcome.
\<close>

record 'f world =
  files :: "string \<rightharpoonup> 'f"
  printed :: "dataframe list"
  written :: "string \<rightharpoonup> string list"

definition pgn_file_path :: string where
  "pgn_file_path = ''lichess_db_standard_rated_2016-02.1.1.pgn''"

definition script ::
  "('f \<Rightarrow> ('b, 'm) game option \<times> 'f) \<Rightarrow> ('b \<Rightarrow> 'm \<Rightarrow> string) \<Rightarrow> ('b \<Rightarrow> 'm \<Rightarrow> 'b) \<Rightarrow>
   'f world \<Rightarrow> (py_error option \<times> 'f world) option"
where
  "script read_game san push w =
     (case pgn_to_dataframe read_game san push (files w) pgn_file_path of
        None \<Rightarrow> None
      | Some (Inl e) \<Rightarrow> Some (Some e, w)
      | Some (Inr df) \<Rightarrow>
          (let w1 = w\<lparr>printed := printed w @ [df]\<rparr>;
               w2 = w1\<lparr>written := (written w1)(''data.csv'' \<mapsto> to_csv df)\<rparr>
           in Some (None, w2)))"

section \<open>Notions the properties are stated with\<close>

text \<open>
  The notations of a move list from a position: each move is rendered on the position
  reached by the moves before it.
\<close>

fun notations :: "('b \<Rightarrow> 'm \<Rightarrow> string) \<Rightarrow> ('b \<Rightarrow> 'm \<Rightarrow> 'b) \<Rightarrow> 'b \<Rightarrow> 'm list \<Rightarrow> string list" where
  "notations san push b [] = []"
| "notations san push b (mv # rest) = san b mv # notations san push (push b mv) rest"

text \<open>
  The games parsed from an input: \<open>reads read_game f gs\<close> when reading from the handle
  \<open>f\<close> gives the games \<open>gs\<close> one after the other and then the end of the input.
\<close>

inductive reads :: "('f \<Rightarrow> 'g option \<times> 'f) \<Rightarrow> 'f \<Rightarrow> 'g list \<Rightarrow> bool"
  for read_game :: "'f \<Rightarrow> 'g option \<times> 'f"
where
  reads_end: "fst (read_game f) = None \<Longrightarrow> reads read_game f []"
| reads_game: "read_game f = (Some g, f') \<Longrightarrow> reads read_game f' gs \<Longrightarrow> reads read_game f (g # gs)"

text \<open>What the reading loop leaves in \<open>games\<close> when the input holds the given games.\<close>

fun rows_from ::
  "('b \<Rightarrow> 'm \<Rightarrow> string) \<Rightarrow> ('b \<Rightarrow> 'm \<Rightarrow> 'b) \<Rightarrow> string list list \<Rightarrow> ('b, 'm) game list \<Rightarrow>
   py_error + string list list"
where
  "rows_from san push games [] = Inr games"
| "rows_from san push games (g # gs) =
     (case game_row san push g of
        Inl e \<Rightarrow> Inl e
      | Inr moves \<Rightarrow> rows_from san push (games @ [moves]) gs)"

text \<open>
  Replaying notations: \<open>parse_san\<close> reads a notation on a position (\<open>None\<close> when it
  names no move there), and the move it names is played before the next is read.
  A move list is playable from a position when each move is legal where it is played.
\<close>

fun replay :: "('b \<Rightarrow> string \<Rightarrow> 'm option) \<Rightarrow> ('b \<Rightarrow> 'm \<Rightarrow> 'b) \<Rightarrow> 'b \<Rightarrow> string list \<Rightarrow> 'm list option" where
  "replay parse_san push b [] = Some []"
| "replay parse_san push b (s # ss) =
     (case parse_san b s of
        None \<Rightarrow> None
      | Some mv \<Rightarrow>
          (case replay parse_san push (push b mv) ss of
             None \<Rightarrow> None
           | Some mvs \<Rightarrow> Some (mv # mvs)))"

fun playable :: "('b \<Rightarrow> 'm \<Rightarrow> bool) \<Rightarrow> ('b \<Rightarrow> 'm \<Rightarrow> 'b) \<Rightarrow> 'b \<Rightarrow> 'm list \<Rightarrow> bool" where
  "playable legal push b [] = True"
| "playable legal push b (mv # rest) = (legal b mv \<and> playable legal push (push b mv) rest)"

subsection \<open>The games that \<open>read_game\<close> returns\<close>

text \<open>
  What \<open>chess.pgn.read_game\<close> makes of one game of the file, as far as the script
  reads it. A game of the file is its tag pairs, the moves its movetext denotes and the
  result token that ends the movetext, when there is one. The headers of the parsed game
  start as the seven tag roster with its default values, \<open>Result\<close> being \<open>*\<close>; each
  tag pair of the file is then set, a later one replacing an earlier one; and the result
  token replaces a \<open>Result\<close> that is still \<open>*\<close>. \<open>game.board()\<close> is the position
  of the \<open>FEN\<close> header when there is one, and the standard starting position otherwise.
  The starting position and the reading of a FEN string are the library's, and
  parameters here.
\<close>

record 'm pgn_record =
  tags :: "(string \<times> string) list"
  movetext :: "'m list"
  result_token :: "string option"

definition tag_roster :: "(string \<times> string) list" where
  "tag_roster =
     [(''Event'', ''?''), (''Site'', ''?''), (''Date'', ''????.??.??''), (''Round'', ''?''),
      (''White'', ''?''), (''Black'', ''?''), (''Result'', ''*'')]"

definition set_tag :: "string \<times> string \<Rightarrow> (string \<rightharpoonup> string) \<Rightarrow> (string \<rightharpoonup> string)" where
  "set_tag kv h = h(fst kv \<mapsto> snd kv)"

definition visit_result :: "string option \<Rightarrow> (string \<rightharpoonup> string) \<Rightarrow> (string \<rightharpoonup> string)" where
  "visit_result t h =
     (case t of
        None \<Rightarrow> h
      | Some result \<Rightarrow>
          if (case h ''Result'' of None \<Rightarrow> ''*'' | Some v \<Rightarrow> v) = ''*''
          then h(''Result'' \<mapsto> result) else h)"

definition parsed_headers :: "'m pgn_record \<Rightarrow> (string \<rightharpoonup> string)" where
  "parsed_headers r = visit_result (result_token r) (fold set_tag (tags r) (map_of tag_roster))"

definition parse_game :: "'b \<Rightarrow> (string \<Rightarrow> 'b) \<Rightarrow> 'm pgn_record \<Rightarrow> ('b, 'm) game" where
  "parse_game start from_fen r =
     \<lparr>board = (case parsed_headers r ''FEN'' of None \<Rightarrow> start | Some fen \<Rightarrow> from_fen fen),
      mainline_moves = movetext r,
      headers = parsed_headers r\<rparr>"

definition pgn_read_game ::
  "'b \<Rightarrow> (string \<Rightarrow> 'b) \<Rightarrow> 'm pgn_record list \<Rightarrow> ('b, 'm) game option \<times> 'm pgn_record list" where
  "pgn_read_game start from_fen f =
     (case f of [] \<Rightarrow> (None, []) | r # rest \<Rightarrow> (Some (parse_game start from_fen r), rest))"

text \<open>The value a game with no \<open>Result\<close> tag pair ends with.\<close>

definition result_of :: "'m pgn_record \<Rightarrow> string" where
  "result_of r = (case result_token r of None \<Rightarrow> ''*'' | Some t \<Rightarrow> t)"

subsection \<open>A small library to run the script on\<close>

text \<open>
  A handle is the list of the games still to be read. A move is written as its own
  notation, and a board is the list of the moves played on it.
\<close>

definition list_read_game :: "'g list \<Rightarrow> 'g option \<times> 'g list" where
  "list_read_game f = (case f of [] \<Rightarrow> (None, []) | g # rest \<Rightarrow> (Some g, rest))"

definition written_san :: "string list \<Rightarrow> string \<Rightarrow> string" where
  "written_san b mv = mv"

definition record_push :: "string list \<Rightarrow> string \<Rightarrow> string list" where
  "record_push b mv = b @ [mv]"

definition written_parse_san :: "string list \<Rightarrow> string \<Rightarrow> string option" where
  "written_parse_san b s = (if s = [] then None else Some s)"

definition written_legal :: "string list \<Rightarrow> string \<Rightarrow> bool" where
  "written_legal b mv = (mv \<noteq> [])"

definition three_ply_game :: "(string list, string) game" where
  "three_ply_game =
     \<lparr>board = [], mainline_moves = [''e4'', ''e5'', ''Nf3''], headers = [''Result'' \<mapsto> ''1-0'']\<rparr>"

definition knights_game :: "(string list, string) game" where
  "knights_game =
     \<lparr>board = [],
      mainline_moves = concat (replicate 11 [''Nf3'', ''Nf6'', ''Ng1'', ''Ng8'']),
      headers = [''Result'' \<mapsto> ''1/2-1/2'']\<rparr>"

definition unplayed_game :: "(string list, string) game" where
  "unplayed_game = \<lparr>board = [], mainline_moves = [], headers = [''Result'' \<mapsto> ''*'']\<rparr>"

definition world_of :: "(string list, string) game list \<Rightarrow> (string list, string) game list world" where
  "world_of gs = \<lparr>files = [pgn_file_path \<mapsto> gs], printed = [], written = Map.empty\<rparr>"


text \<open>
  Games of a file for that library, with no \<open>Result\<close> tag pair.
\<close>

definition written_from_fen :: "string \<Rightarrow> string list" where
  "written_from_fen fen = []"

definition d4_record :: "string pgn_record" where
  "d4_record = \<lparr>tags = [(''Event'', ''Casual game'')], movetext = [''d4''], result_token = None\<rparr>"

definition knights_record :: "string pgn_record" where
  "knights_record =
     \<lparr>tags = [(''Event'', ''Casual game'')],
      movetext = concat (replicate 11 [''Nf3'', ''Nf6'', ''Ng1'', ''Ng8'']),
      result_token = None\<rparr>"

definition record_world :: "string pgn_record list \<Rightarrow> string pgn_record list world" where
  "record_world rs = \<lparr>files = [pgn_file_path \<mapsto> rs], printed = [], written = Map.empty\<rparr>"

text \<open>
  A second library, whose notation depends on the board. A board is the list of the
  squares that hold a piece, each with the letter of the piece; a move is the square it
  leaves and the square it reaches. The notation of a move is the letter of the moved
  piece and the square reached, and it is read back as the move of the first piece of
  that letter; a move is legal when it moves that piece. The library knows one FEN
  string besides the starting position, a rook ending.
\<close>

type_synonym placement = "(string \<times> char) list"

definition first_square :: "placement \<Rightarrow> char \<Rightarrow> string option" where
  "first_square b p = map_option fst (find (\<lambda>e. snd e = p) b)"

definition placed_san :: "placement \<Rightarrow> string \<times> string \<Rightarrow> string" where
  "placed_san b mv = (case map_of b (fst mv) of None \<Rightarrow> snd mv | Some p \<Rightarrow> p # snd mv)"

definition placed_push :: "placement \<Rightarrow> string \<times> string \<Rightarrow> placement" where
  "placed_push b mv =
     (case map_of b (fst mv) of
        None \<Rightarrow> b
      | Some p \<Rightarrow> (snd mv, p) # filter (\<lambda>e. fst e \<noteq> fst mv \<and> fst e \<noteq> snd mv) b)"

definition placed_parse_san :: "placement \<Rightarrow> string \<Rightarrow> (string \<times> string) option" where
  "placed_parse_san b s =
     (case s of
        [] \<Rightarrow> None
      | p # sq \<Rightarrow> (case first_square b p of None \<Rightarrow> None | Some f \<Rightarrow> Some (f, sq)))"

definition placed_legal :: "placement \<Rightarrow> string \<times> string \<Rightarrow> bool" where
  "placed_legal b mv =
     (case map_of b (fst mv) of None \<Rightarrow> False | Some p \<Rightarrow> first_square b p = Some (fst mv))"

definition standard_placement :: placement where
  "standard_placement =
     [(''a1'', CHR ''R''), (''b1'', CHR ''N''), (''c1'', CHR ''B''), (''d1'', CHR ''Q''),
      (''e1'', CHR ''K''), (''f1'', CHR ''B''), (''g1'', CHR ''N''), (''h1'', CHR ''R''),
      (''a8'', CHR ''R''), (''b8'', CHR ''N''), (''c8'', CHR ''B''), (''d8'', CHR ''Q''),
      (''e8'', CHR ''K''), (''f8'', CHR ''B''), (''g8'', CHR ''N''), (''h8'', CHR ''R'')]"

definition rook_ending_fen :: string where
  "rook_ending_fen = ''8/7k/8/8/3R4/8/8/4K3 w - - 0 1''"

definition placed_from_fen :: "string \<Rightarrow> placement" where
  "placed_from_fen fen =
     (if fen = rook_ending_fen
      then [(''d4'', CHR ''R''), (''e1'', CHR ''K''), (''h7'', CHR ''K'')]
      else standard_placement)"

definition rook_ending_record :: "(string \<times> string) pgn_record" where
  "rook_ending_record =
     \<lparr>tags = [(''Result'', ''*''), (''SetUp'', ''1''), (''FEN'', rook_ending_fen)],
      movetext = [(''d4'', ''d8'')],
      result_token = Some ''*''\<rparr>"

definition rook_ending_game :: "(placement, string \<times> string) game" where
  "rook_ending_game = parse_game standard_placement placed_from_fen rook_ending_record"

section \<open>Facts about the loops, the table and the file\<close>

lemma length_notations: "length (notations san push b ms) = length ms"
  by (induction ms arbitrary: b) simp_all

lemma render_moves_acc:
  "length acc < 40 \<Longrightarrow>
   render_moves san push b acc ms = acc @ notations san push b (take (40 - length acc) ms)"
proof (induction ms arbitrary: b acc)
  case Nil
  then show ?case by simp
next
  case (Cons mv rest)
  show ?case
  proof (cases "length acc = 39")
    case True
    then show ?thesis by simp
  next
    case False
    with Cons.prems have lt: "length (acc @ [san b mv]) < 40" by simp
    have tk: "take (40 - length acc) (mv # rest) = mv # take (40 - length (acc @ [san b mv])) rest"
      using Cons.prems by (simp add: take_Cons')
    show ?thesis
      using False Cons.IH [OF lt] by (simp add: tk Let_def)
  qed
qed

lemma render_moves_notations:
  "render_moves san push b [] ms = notations san push b (take 40 ms)"
  using render_moves_acc [of "[]" san push b ms] by simp

lemma game_row_tagged:
  "headers g ''Result'' = Some r \<Longrightarrow>
   game_row san push g = Inr (notations san push (board g) (take 40 (mainline_moves g)) @ [r])"
  by (simp add: game_row_def render_moves_notations)

lemma game_row_Inr:
  "game_row san push g = Inr row \<Longrightarrow>
   \<exists>r. headers g ''Result'' = Some r \<and>
       row = notations san push (board g) (take 40 (mainline_moves g)) @ [r]"
  by (auto simp: game_row_def render_moves_notations split: option.splits)

lemma read_loop_reads:
  "reads rd f gs \<Longrightarrow> read_loop rd san push f games = Some (rows_from san push games gs)"
proof (induction arbitrary: games rule: reads.induct)
  case (reads_end f)
  then show ?case
    by (subst read_loop.simps) (auto split: prod.splits)
next
  case (reads_game f g f' gs)
  then show ?case
    by (subst read_loop.simps) (simp split: sum.splits)
qed

lemma reads_list: "reads list_read_game gs gs"
  by (induction gs) (auto intro: reads.intros simp: list_read_game_def)


lemma column_names_eq: "column_names = [''Ply 1'', ''Ply 2'', ''Ply 3'', ''Ply 4'', ''Ply 5'', ''Ply 6'', ''Ply 7'', ''Ply 8'', ''Ply 9'', ''Ply 10'', ''Ply 11'', ''Ply 12'', ''Ply 13'', ''Ply 14'', ''Ply 15'', ''Ply 16'', ''Ply 17'', ''Ply 18'', ''Ply 19'', ''Ply 20'', ''Ply 21'', ''Ply 22'', ''Ply 23'', ''Ply 24'', ''Ply 25'', ''Ply 26'', ''Ply 27'', ''Ply 28'', ''Ply 29'', ''Ply 30'', ''Ply 31'', ''Ply 32'', ''Ply 33'', ''Ply 34'', ''Ply 35'', ''Ply 36'', ''Ply 37'', ''Ply 38'', ''Ply 39'', ''Ply 40'', ''Result'']"
  by code_simp

lemma length_column_names: "length column_names = 41"
  by (simp add: column_names_def)

lemma header_line: "csv_line (map Some column_names) = ''Ply 1,Ply 2,Ply 3,Ply 4,Ply 5,Ply 6,Ply 7,Ply 8,Ply 9,Ply 10,Ply 11,Ply 12,Ply 13,Ply 14,Ply 15,Ply 16,Ply 17,Ply 18,Ply 19,Ply 20,Ply 21,Ply 22,Ply 23,Ply 24,Ply 25,Ply 26,Ply 27,Ply 28,Ply 29,Ply 30,Ply 31,Ply 32,Ply 33,Ply 34,Ply 35,Ply 36,Ply 37,Ply 38,Ply 39,Ply 40,Result''"
  by code_simp


lemma pgn_to_dataframe_reads:
  "reads rd f gs \<Longrightarrow> fs p = Some f \<Longrightarrow>
   pgn_to_dataframe rd san push fs p =
     Some (case rows_from san push [] gs of
             Inl e \<Rightarrow> Inl e
           | Inr games \<Rightarrow> DataFrame games column_names)"
  by (simp add: pgn_to_dataframe_def read_loop_reads split: sum.splits)

lemma script_reads:
  "reads rd f gs \<Longrightarrow> files w pgn_file_path = Some f \<Longrightarrow>
   script rd san push w =
     Some (case rows_from san push [] gs of
             Inl e \<Rightarrow> (Some e, w)
           | Inr games \<Rightarrow>
               (case DataFrame games column_names of
                  Inl e \<Rightarrow> (Some e, w)
                | Inr df \<Rightarrow>
                    (None, w\<lparr>printed := printed w @ [df],
                             written := (written w)(''data.csv'' \<mapsto> to_csv df)\<rparr>)))"
  by (simp add: script_def pgn_to_dataframe_reads Let_def split: sum.splits)

lemma files_world_of: "files (world_of gs) pgn_file_path = Some gs"
  by (simp add: world_of_def)



lemma three_ply_row:
  "game_row written_san record_push three_ply_game = Inr [''e4'', ''e5'', ''Nf3'', ''1-0'']"
  by (simp add: game_row_def three_ply_game_def written_san_def)






lemma one_game_width: "width [[''e4'', ''e5'', ''Nf3'', ''1-0'']] = 4"
  by (simp add: width_def)

lemma playable_take: "playable legal push b ms \<Longrightarrow> playable legal push b (take n ms)"
proof (induction ms arbitrary: b n)
  case Nil
  then show ?case by simp
next
  case (Cons mv rest)
  then show ?case by (cases n) simp_all
qed

lemma replay_notations:
  assumes law: "\<And>b mv. legal b mv \<Longrightarrow> parse_san b (san b mv) = Some mv"
  shows "playable legal push b ms \<Longrightarrow>
         replay parse_san push b (notations san push b ms) = Some ms"
proof (induction ms arbitrary: b)
  case Nil
  then show ?case by simp
next
  case (Cons mv rest)
  then have "legal b mv" and "playable legal push (push b mv) rest"
    by simp_all
  with Cons.IH law show ?case by simp
qed

lemma fold_set_tag_other:
  "k \<notin> fst ` set ts \<Longrightarrow> fold set_tag ts h k = h k"
  by (induction ts arbitrary: h) (auto simp: set_tag_def)

lemma fold_set_tag_Some: "h k \<noteq> None \<Longrightarrow> fold set_tag ts h k \<noteq> None"
  by (induction ts arbitrary: h) (auto simp: set_tag_def)

lemma parsed_headers_untagged:
  "''Result'' \<notin> fst ` set (tags r) \<Longrightarrow> parsed_headers r ''Result'' = Some (result_of r)"
  by (simp add: parsed_headers_def visit_result_def result_of_def fold_set_tag_other tag_roster_def
      split: option.splits)

lemma parsed_game_has_result: "headers (parse_game start from_fen r) ''Result'' \<noteq> None"
proof -
  have "fold set_tag (tags r) (map_of tag_roster) ''Result'' \<noteq> None"
    by (rule fold_set_tag_Some) (simp add: tag_roster_def)
  then show ?thesis
    by (auto simp: parse_game_def parsed_headers_def visit_result_def split: option.splits)
qed

lemma reads_pgn:
  "reads (pgn_read_game start from_fen) rs (map (parse_game start from_fen) rs)"
  by (induction rs) (auto intro: reads.intros simp: pgn_read_game_def)

lemma files_record_world: "files (record_world rs) pgn_file_path = Some rs"
  by (simp add: record_world_def)

lemma knights_record_row:
  "game_row written_san record_push (parse_game [] written_from_fen knights_record) =
     Inr [''Nf3'', ''Nf6'', ''Ng1'', ''Ng8'', ''Nf3'', ''Nf6'', ''Ng1'', ''Ng8'', ''Nf3'', ''Nf6'', ''Ng1'', ''Ng8'', ''Nf3'', ''Nf6'', ''Ng1'', ''Ng8'', ''Nf3'', ''Nf6'', ''Ng1'', ''Ng8'', ''Nf3'', ''Nf6'', ''Ng1'', ''Ng8'', ''Nf3'', ''Nf6'', ''Ng1'', ''Ng8'', ''Nf3'', ''Nf6'', ''Ng1'', ''Ng8'', ''Nf3'', ''Nf6'', ''Ng1'', ''Ng8'', ''Nf3'', ''Nf6'', ''Ng1'', ''Ng8'', ''*'']"
proof -
  have t: "''Result'' \<notin> fst ` set (tags knights_record)"
    by (simp add: knights_record_def)
  have r: "result_of knights_record = ''*''"
    by (simp add: result_of_def knights_record_def)
  have h: "headers (parse_game [] written_from_fen knights_record) ''Result'' = Some ''*''"
    using t by (simp add: parse_game_def parsed_headers_untagged r)
  have b: "board (parse_game [] written_from_fen knights_record) = []"
    by (simp add: parse_game_def parsed_headers_def visit_result_def knights_record_def
        tag_roster_def set_tag_def)
  have m: "mainline_moves (parse_game [] written_from_fen knights_record) = movetext knights_record"
    by (simp add: parse_game_def)
  have v: "notations written_san record_push [] (take 40 (movetext knights_record)) @ [''*''] =
      [''Nf3'', ''Nf6'', ''Ng1'', ''Ng8'', ''Nf3'', ''Nf6'', ''Ng1'', ''Ng8'', ''Nf3'', ''Nf6'', ''Ng1'', ''Ng8'', ''Nf3'', ''Nf6'', ''Ng1'', ''Ng8'', ''Nf3'', ''Nf6'', ''Ng1'', ''Ng8'', ''Nf3'', ''Nf6'', ''Ng1'', ''Ng8'', ''Nf3'', ''Nf6'', ''Ng1'', ''Ng8'', ''Nf3'', ''Nf6'', ''Ng1'', ''Ng8'', ''Nf3'', ''Nf6'', ''Ng1'', ''Ng8'', ''Nf3'', ''Nf6'', ''Ng1'', ''Ng8'', ''*'']"
    by code_simp
  show ?thesis
    using game_row_tagged [OF h, of written_san record_push] unfolding b m v .
qed

lemma knights_record_width: "width [[''Nf3'', ''Nf6'', ''Ng1'', ''Ng8'', ''Nf3'', ''Nf6'', ''Ng1'', ''Ng8'', ''Nf3'', ''Nf6'', ''Ng1'', ''Ng8'', ''Nf3'', ''Nf6'', ''Ng1'', ''Ng8'', ''Nf3'', ''Nf6'', ''Ng1'', ''Ng8'', ''Nf3'', ''Nf6'', ''Ng1'', ''Ng8'', ''Nf3'', ''Nf6'', ''Ng1'', ''Ng8'', ''Nf3'', ''Nf6'', ''Ng1'', ''Ng8'', ''Nf3'', ''Nf6'', ''Ng1'', ''Ng8'', ''Nf3'', ''Nf6'', ''Ng1'', ''Ng8'', ''*'']] = 41"
  by code_simp

lemma knights_record_line: "csv_line (pad 41 [''Nf3'', ''Nf6'', ''Ng1'', ''Ng8'', ''Nf3'', ''Nf6'', ''Ng1'', ''Ng8'', ''Nf3'', ''Nf6'', ''Ng1'', ''Ng8'', ''Nf3'', ''Nf6'', ''Ng1'', ''Ng8'', ''Nf3'', ''Nf6'', ''Ng1'', ''Ng8'', ''Nf3'', ''Nf6'', ''Ng1'', ''Ng8'', ''Nf3'', ''Nf6'', ''Ng1'', ''Ng8'', ''Nf3'', ''Nf6'', ''Ng1'', ''Ng8'', ''Nf3'', ''Nf6'', ''Ng1'', ''Ng8'', ''Nf3'', ''Nf6'', ''Ng1'', ''Ng8'', ''*'']) = ''Nf3,Nf6,Ng1,Ng8,Nf3,Nf6,Ng1,Ng8,Nf3,Nf6,Ng1,Ng8,Nf3,Nf6,Ng1,Ng8,Nf3,Nf6,Ng1,Ng8,Nf3,Nf6,Ng1,Ng8,Nf3,Nf6,Ng1,Ng8,Nf3,Nf6,Ng1,Ng8,Nf3,Nf6,Ng1,Ng8,Nf3,Nf6,Ng1,Ng8,*''"
  by code_simp

lemma placed_law:
  "placed_legal b mv \<Longrightarrow> placed_parse_san b (placed_san b mv) = Some mv"
  by (cases mv) (auto simp: placed_legal_def placed_parse_san_def placed_san_def
      split: option.splits)

lemma rook_ending_board:
  "board rook_ending_game = [(''d4'', CHR ''R''), (''e1'', CHR ''K''), (''h7'', CHR ''K'')]"
  by (simp add: rook_ending_game_def parse_game_def parsed_headers_def visit_result_def
      rook_ending_record_def tag_roster_def set_tag_def placed_from_fen_def)

lemma rook_ending_moves: "mainline_moves rook_ending_game = [(''d4'', ''d8'')]"
  by (simp add: rook_ending_game_def parse_game_def rook_ending_record_def)

lemma rook_ending_playable:
  "playable placed_legal placed_push (board rook_ending_game) (mainline_moves rook_ending_game)"
  unfolding rook_ending_board rook_ending_moves
  by (simp add: placed_legal_def first_square_def)

lemma rook_ending_notations:
  "render_moves placed_san placed_push (board rook_ending_game) []
     (mainline_moves rook_ending_game) = [''Rd8'']"
  unfolding rook_ending_board rook_ending_moves
  by (simp add: placed_san_def)

section \<open>The properties\<close>

text \<open>
  C5. The row of a game ends with the value its \<open>Result\<close> header holds, as it stands
  there: whatever the string, and so for each of \<open>1-0\<close>, \<open>0-1\<close>, \<open>1/2-1/2\<close> and \<open>*\<close>.
\<close>

theorem row_ends_with_result:
  assumes "headers g ''Result'' = Some r"
  shows "\<exists>moves. game_row san push g = Inr (moves @ [r]) \<and> last (moves @ [r]) = r"
  using assms by (simp add: game_row_def)

theorem row_ends_with_result_witness:
  "(\<exists>moves. game_row written_san record_push three_ply_game = Inr (moves @ [''1-0''])) \<and>
   (\<exists>moves. game_row written_san record_push
        (three_ply_game\<lparr>headers := [''Result'' \<mapsto> ''0-1'']\<rparr>) = Inr (moves @ [''0-1''])) \<and>
   (\<exists>moves. game_row written_san record_push knights_game = Inr (moves @ [''1/2-1/2''])) \<and>
   (\<exists>moves. game_row written_san record_push unplayed_game = Inr (moves @ [''*'']))"
proof -
  have t1: "headers three_ply_game ''Result'' = Some ''1-0''"
    by (simp add: three_ply_game_def)
  have t2: "headers (three_ply_game\<lparr>headers := [''Result'' \<mapsto> ''0-1'']\<rparr>) ''Result'' = Some ''0-1''"
    by simp
  have t3: "headers knights_game ''Result'' = Some ''1/2-1/2''"
    by (simp add: knights_game_def)
  have t4: "headers unplayed_game ''Result'' = Some ''*''"
    by (simp add: unplayed_game_def)
  show ?thesis
    using row_ends_with_result [OF t1, of written_san record_push]
      row_ends_with_result [OF t2, of written_san record_push]
      row_ends_with_result [OF t3, of written_san record_push]
      row_ends_with_result [OF t4, of written_san record_push]
    by blast
qed

text \<open>
  C1. A game with more than 40 half-moves and a \<open>Result\<close> header gets the row of the
  notations of its first 40 moves, in order, each rendered on the position its
  predecessors lead to, followed by the result: 41 entries.
\<close>

theorem row_of_long_game:
  assumes "40 < length (mainline_moves g)" and "headers g ''Result'' = Some r"
  shows "game_row san push g =
           Inr (notations san push (board g) (take 40 (mainline_moves g)) @ [r]) \<and>
         length (notations san push (board g) (take 40 (mainline_moves g)) @ [r]) = 41"
proof -
  have "length (take 40 (mainline_moves g)) = 40"
    using assms(1) by simp
  then show ?thesis
    using assms(2) by (simp add: game_row_tagged length_notations)
qed

theorem row_of_long_game_witness:
  "40 < length (mainline_moves knights_game) \<and>
   headers knights_game ''Result'' = Some ''1/2-1/2'' \<and>
   game_row written_san record_push knights_game = Inr [''Nf3'', ''Nf6'', ''Ng1'', ''Ng8'', ''Nf3'', ''Nf6'', ''Ng1'', ''Ng8'', ''Nf3'', ''Nf6'', ''Ng1'', ''Ng8'', ''Nf3'', ''Nf6'', ''Ng1'', ''Ng8'', ''Nf3'', ''Nf6'', ''Ng1'', ''Ng8'', ''Nf3'', ''Nf6'', ''Ng1'', ''Ng8'', ''Nf3'', ''Nf6'', ''Ng1'', ''Ng8'', ''Nf3'', ''Nf6'', ''Ng1'', ''Ng8'', ''Nf3'', ''Nf6'', ''Ng1'', ''Ng8'', ''Nf3'', ''Nf6'', ''Ng1'', ''Ng8'', ''1/2-1/2''] \<and>
   length [''Nf3'', ''Nf6'', ''Ng1'', ''Ng8'', ''Nf3'', ''Nf6'', ''Ng1'', ''Ng8'', ''Nf3'', ''Nf6'', ''Ng1'', ''Ng8'', ''Nf3'', ''Nf6'', ''Ng1'', ''Ng8'', ''Nf3'', ''Nf6'', ''Ng1'', ''Ng8'', ''Nf3'', ''Nf6'', ''Ng1'', ''Ng8'', ''Nf3'', ''Nf6'', ''Ng1'', ''Ng8'', ''Nf3'', ''Nf6'', ''Ng1'', ''Ng8'', ''Nf3'', ''Nf6'', ''Ng1'', ''Ng8'', ''Nf3'', ''Nf6'', ''Ng1'', ''Ng8'', ''1/2-1/2''] = 41"
proof -
  have long: "40 < length (mainline_moves knights_game)"
    by code_simp
  have tag: "headers knights_game ''Result'' = Some ''1/2-1/2''"
    by (simp add: knights_game_def)
  have val: "notations written_san record_push (board knights_game)
          (take 40 (mainline_moves knights_game)) @ [''1/2-1/2''] = [''Nf3'', ''Nf6'', ''Ng1'', ''Ng8'', ''Nf3'', ''Nf6'', ''Ng1'', ''Ng8'', ''Nf3'', ''Nf6'', ''Ng1'', ''Ng8'', ''Nf3'', ''Nf6'', ''Ng1'', ''Ng8'', ''Nf3'', ''Nf6'', ''Ng1'', ''Ng8'', ''Nf3'', ''Nf6'', ''Ng1'', ''Ng8'', ''Nf3'', ''Nf6'', ''Ng1'', ''Ng8'', ''Nf3'', ''Nf6'', ''Ng1'', ''Ng8'', ''Nf3'', ''Nf6'', ''Ng1'', ''Ng8'', ''Nf3'', ''Nf6'', ''Ng1'', ''Ng8'', ''1/2-1/2'']"
    by code_simp
  have row: "game_row written_san record_push knights_game = Inr [''Nf3'', ''Nf6'', ''Ng1'', ''Ng8'', ''Nf3'', ''Nf6'', ''Ng1'', ''Ng8'', ''Nf3'', ''Nf6'', ''Ng1'', ''Ng8'', ''Nf3'', ''Nf6'', ''Ng1'', ''Ng8'', ''Nf3'', ''Nf6'', ''Ng1'', ''Ng8'', ''Nf3'', ''Nf6'', ''Ng1'', ''Ng8'', ''Nf3'', ''Nf6'', ''Ng1'', ''Ng8'', ''Nf3'', ''Nf6'', ''Ng1'', ''Ng8'', ''Nf3'', ''Nf6'', ''Ng1'', ''Ng8'', ''Nf3'', ''Nf6'', ''Ng1'', ''Ng8'', ''1/2-1/2'']"
    using row_of_long_game [OF long tag, of written_san record_push] unfolding val
    by (rule conjunct1)
  show ?thesis
    using long tag row by simp
qed

text \<open>
  C2. A game with \<open>N \<le> 40\<close> half-moves and a \<open>Result\<close> header gets the row of the
  notations of all its moves followed by the result: \<open>N + 1\<close> entries and nothing
  after them, so the row is shorter than 41 entries when \<open>N < 40\<close>.
\<close>

theorem row_of_short_game:
  assumes "length (mainline_moves g) = N" and "N \<le> 40" and "headers g ''Result'' = Some r"
  shows "game_row san push g = Inr (notations san push (board g) (mainline_moves g) @ [r]) \<and>
         length (notations san push (board g) (mainline_moves g) @ [r]) = N + 1"
  using assms by (simp add: game_row_tagged length_notations)

theorem row_of_short_game_witness:
  "length (mainline_moves three_ply_game) = 3 \<and> (3::nat) \<le> 40 \<and>
   headers three_ply_game ''Result'' = Some ''1-0'' \<and>
   game_row written_san record_push three_ply_game = Inr [''e4'', ''e5'', ''Nf3'', ''1-0''] \<and>
   length [''e4'', ''e5'', ''Nf3'', ''1-0''] = 3 + 1"
proof -
  have len: "length (mainline_moves three_ply_game) = 3"
    by (simp add: three_ply_game_def)
  have le: "(3::nat) \<le> 40"
    by simp
  have tag: "headers three_ply_game ''Result'' = Some ''1-0''"
    by (simp add: three_ply_game_def)
  have val: "notations written_san record_push (board three_ply_game) (mainline_moves three_ply_game)
          @ [''1-0''] = [''e4'', ''e5'', ''Nf3'', ''1-0'']"
    by (simp add: three_ply_game_def written_san_def)
  have row: "game_row written_san record_push three_ply_game = Inr [''e4'', ''e5'', ''Nf3'', ''1-0'']"
    using row_of_short_game [OF len le tag, of written_san record_push] unfolding val by (rule conjunct1)
  show ?thesis
    using len tag row by simp
qed

text \<open>
  C9. Every row that is assembled has between 1 and 41 entries and ends with the value of
  the \<open>Result\<close> header; a game with no move and a \<open>Result\<close> header gets the row of
  that value alone.
\<close>

theorem rows_are_never_empty:
  "(\<forall>row. game_row san push g = Inr row \<longrightarrow>
       1 \<le> length row \<and> length row \<le> 41 \<and> headers g ''Result'' = Some (last row)) \<and>
   (\<forall>r. mainline_moves g = [] \<and> headers g ''Result'' = Some r \<longrightarrow>
       game_row san push g = Inr [r])"
proof -
  have "1 \<le> length row \<and> length row \<le> 41 \<and> headers g ''Result'' = Some (last row)"
    if "game_row san push g = Inr row" for row
    using game_row_Inr [OF that] by (auto simp: length_notations)
  moreover have "game_row san push g = Inr [r]"
    if "mainline_moves g = [] \<and> headers g ''Result'' = Some r" for r
    using that by (simp add: game_row_tagged)
  ultimately show ?thesis by blast
qed

theorem rows_are_never_empty_witness:
  "mainline_moves unplayed_game = [] \<and>
   headers unplayed_game ''Result'' = Some ''*'' \<and>
   game_row written_san record_push unplayed_game = Inr [''*''] \<and>
   (1::nat) \<le> length [''*''] \<and> length [''*''] \<le> (41::nat) \<and>
   headers unplayed_game ''Result'' = Some (last [''*''])"
proof -
  have pre: "mainline_moves unplayed_game = [] \<and> headers unplayed_game ''Result'' = Some ''*''"
    by (simp add: unplayed_game_def)
  have all: "\<forall>r. mainline_moves unplayed_game = [] \<and> headers unplayed_game ''Result'' = Some r \<longrightarrow>
       game_row written_san record_push unplayed_game = Inr [r]"
    using rows_are_never_empty [of written_san record_push unplayed_game] by (rule conjunct2)
  have row: "game_row written_san record_push unplayed_game = Inr [''*'']"
    using all pre by blast
  have inv: "1 \<le> length [''*''] \<and> length [''*''] \<le> 41 \<and>
      headers unplayed_game ''Result'' = Some (last [''*''])"
    using rows_are_never_empty [of written_san record_push unplayed_game] row by blast
  show ?thesis
    using pre row inv by blast
qed

text \<open>
  C4, as the library has it. A game that \<open>read_game\<close> returns always has a
  \<open>Result\<close> header. When the game of the file has no \<open>Result\<close> tag pair the
  header holds the default \<open>*\<close>, or the result token that ends the movetext: the
  lookup raises no \<open>KeyError\<close>, and the row of the game is assembled and ends with
  that value. So a run does not fail on an absent tag: on the file of one such game of
  44 half-moves it ends without an error and writes \<open>data.csv\<close>.
\<close>

theorem absent_result_tag_is_no_error:
  assumes "''Result'' \<notin> fst ` set (tags r)"
  shows "headers (parse_game start from_fen r) ''Result'' = Some (result_of r) \<and>
         game_row san push (parse_game start from_fen r) =
           Inr (notations san push (board (parse_game start from_fen r)) (take 40 (movetext r))
                @ [result_of r])"
proof -
  have h: "headers (parse_game start from_fen r) ''Result'' = Some (result_of r)"
    using assms by (simp add: parse_game_def parsed_headers_untagged)
  have "mainline_moves (parse_game start from_fen r) = movetext r"
    by (simp add: parse_game_def)
  with game_row_tagged [OF h, of san push] h show ?thesis
    by simp
qed

theorem absent_result_tag_is_no_error_witness:
  "''Result'' \<notin> fst ` set (tags d4_record) \<and>
   headers (parse_game [] written_from_fen d4_record) ''Result'' = Some ''*'' \<and>
   game_row written_san record_push (parse_game [] written_from_fen d4_record) =
     Inr [''d4'', ''*'']"
proof -
  have t: "''Result'' \<notin> fst ` set (tags d4_record)"
    by (simp add: d4_record_def)
  have r: "result_of d4_record = ''*''"
    by (simp add: result_of_def d4_record_def)
  have b: "board (parse_game [] written_from_fen d4_record) = []"
    by (simp add: parse_game_def parsed_headers_def visit_result_def d4_record_def
        tag_roster_def set_tag_def)
  have v: "notations written_san record_push [] (take 40 (movetext d4_record)) = [''d4'']"
    by (simp add: d4_record_def written_san_def)
  show ?thesis
    using t absent_result_tag_is_no_error [OF t, of "[]" written_from_fen written_san record_push]
    unfolding r b v by simp
qed

theorem absent_result_tag_run_completes:
  "''Result'' \<notin> fst ` set (tags knights_record) \<and>
   script (pgn_read_game [] written_from_fen) written_san record_push
       (record_world [knights_record]) \<noteq> None \<and>
   fst (the (script (pgn_read_game [] written_from_fen) written_san record_push
       (record_world [knights_record]))) = None \<and>
   written (snd (the (script (pgn_read_game [] written_from_fen) written_san record_push
       (record_world [knights_record])))) ''data.csv'' = Some [''Ply 1,Ply 2,Ply 3,Ply 4,Ply 5,Ply 6,Ply 7,Ply 8,Ply 9,Ply 10,Ply 11,Ply 12,Ply 13,Ply 14,Ply 15,Ply 16,Ply 17,Ply 18,Ply 19,Ply 20,Ply 21,Ply 22,Ply 23,Ply 24,Ply 25,Ply 26,Ply 27,Ply 28,Ply 29,Ply 30,Ply 31,Ply 32,Ply 33,Ply 34,Ply 35,Ply 36,Ply 37,Ply 38,Ply 39,Ply 40,Result'', ''Nf3,Nf6,Ng1,Ng8,Nf3,Nf6,Ng1,Ng8,Nf3,Nf6,Ng1,Ng8,Nf3,Nf6,Ng1,Ng8,Nf3,Nf6,Ng1,Ng8,Nf3,Nf6,Ng1,Ng8,Nf3,Nf6,Ng1,Ng8,Nf3,Nf6,Ng1,Ng8,Nf3,Nf6,Ng1,Ng8,Nf3,Nf6,Ng1,Ng8,*'']"
proof -
  have t: "''Result'' \<notin> fst ` set (tags knights_record)"
    by (simp add: knights_record_def)
  have df: "DataFrame [[''Nf3'', ''Nf6'', ''Ng1'', ''Ng8'', ''Nf3'', ''Nf6'', ''Ng1'', ''Ng8'', ''Nf3'', ''Nf6'', ''Ng1'', ''Ng8'', ''Nf3'', ''Nf6'', ''Ng1'', ''Ng8'', ''Nf3'', ''Nf6'', ''Ng1'', ''Ng8'', ''Nf3'', ''Nf6'', ''Ng1'', ''Ng8'', ''Nf3'', ''Nf6'', ''Ng1'', ''Ng8'', ''Nf3'', ''Nf6'', ''Ng1'', ''Ng8'', ''Nf3'', ''Nf6'', ''Ng1'', ''Ng8'', ''Nf3'', ''Nf6'', ''Ng1'', ''Ng8'', ''*'']] column_names =
      Inr \<lparr>columns = column_names, cells = [pad 41 [''Nf3'', ''Nf6'', ''Ng1'', ''Ng8'', ''Nf3'', ''Nf6'', ''Ng1'', ''Ng8'', ''Nf3'', ''Nf6'', ''Ng1'', ''Ng8'', ''Nf3'', ''Nf6'', ''Ng1'', ''Ng8'', ''Nf3'', ''Nf6'', ''Ng1'', ''Ng8'', ''Nf3'', ''Nf6'', ''Ng1'', ''Ng8'', ''Nf3'', ''Nf6'', ''Ng1'', ''Ng8'', ''Nf3'', ''Nf6'', ''Ng1'', ''Ng8'', ''Nf3'', ''Nf6'', ''Ng1'', ''Ng8'', ''Nf3'', ''Nf6'', ''Ng1'', ''Ng8'', ''*'']]\<rparr>"
    by (simp add: DataFrame_def knights_record_width length_column_names)
  have csv: "to_csv \<lparr>columns = column_names, cells = [pad 41 [''Nf3'', ''Nf6'', ''Ng1'', ''Ng8'', ''Nf3'', ''Nf6'', ''Ng1'', ''Ng8'', ''Nf3'', ''Nf6'', ''Ng1'', ''Ng8'', ''Nf3'', ''Nf6'', ''Ng1'', ''Ng8'', ''Nf3'', ''Nf6'', ''Ng1'', ''Ng8'', ''Nf3'', ''Nf6'', ''Ng1'', ''Ng8'', ''Nf3'', ''Nf6'', ''Ng1'', ''Ng8'', ''Nf3'', ''Nf6'', ''Ng1'', ''Ng8'', ''Nf3'', ''Nf6'', ''Ng1'', ''Ng8'', ''Nf3'', ''Nf6'', ''Ng1'', ''Ng8'', ''*'']]\<rparr> = [''Ply 1,Ply 2,Ply 3,Ply 4,Ply 5,Ply 6,Ply 7,Ply 8,Ply 9,Ply 10,Ply 11,Ply 12,Ply 13,Ply 14,Ply 15,Ply 16,Ply 17,Ply 18,Ply 19,Ply 20,Ply 21,Ply 22,Ply 23,Ply 24,Ply 25,Ply 26,Ply 27,Ply 28,Ply 29,Ply 30,Ply 31,Ply 32,Ply 33,Ply 34,Ply 35,Ply 36,Ply 37,Ply 38,Ply 39,Ply 40,Result'', ''Nf3,Nf6,Ng1,Ng8,Nf3,Nf6,Ng1,Ng8,Nf3,Nf6,Ng1,Ng8,Nf3,Nf6,Ng1,Ng8,Nf3,Nf6,Ng1,Ng8,Nf3,Nf6,Ng1,Ng8,Nf3,Nf6,Ng1,Ng8,Nf3,Nf6,Ng1,Ng8,Nf3,Nf6,Ng1,Ng8,Nf3,Nf6,Ng1,Ng8,*'']"
    by (simp add: to_csv_def header_line knights_record_line)
  have run: "script (pgn_read_game [] written_from_fen) written_san record_push
        (record_world [knights_record]) =
      Some (None, (record_world [knights_record])
        \<lparr>printed := printed (record_world [knights_record]) @
            [\<lparr>columns = column_names, cells = [pad 41 [''Nf3'', ''Nf6'', ''Ng1'', ''Ng8'', ''Nf3'', ''Nf6'', ''Ng1'', ''Ng8'', ''Nf3'', ''Nf6'', ''Ng1'', ''Ng8'', ''Nf3'', ''Nf6'', ''Ng1'', ''Ng8'', ''Nf3'', ''Nf6'', ''Ng1'', ''Ng8'', ''Nf3'', ''Nf6'', ''Ng1'', ''Ng8'', ''Nf3'', ''Nf6'', ''Ng1'', ''Ng8'', ''Nf3'', ''Nf6'', ''Ng1'', ''Ng8'', ''Nf3'', ''Nf6'', ''Ng1'', ''Ng8'', ''Nf3'', ''Nf6'', ''Ng1'', ''Ng8'', ''*'']]\<rparr>],
         written := (written (record_world [knights_record]))(''data.csv'' \<mapsto> [''Ply 1,Ply 2,Ply 3,Ply 4,Ply 5,Ply 6,Ply 7,Ply 8,Ply 9,Ply 10,Ply 11,Ply 12,Ply 13,Ply 14,Ply 15,Ply 16,Ply 17,Ply 18,Ply 19,Ply 20,Ply 21,Ply 22,Ply 23,Ply 24,Ply 25,Ply 26,Ply 27,Ply 28,Ply 29,Ply 30,Ply 31,Ply 32,Ply 33,Ply 34,Ply 35,Ply 36,Ply 37,Ply 38,Ply 39,Ply 40,Result'', ''Nf3,Nf6,Ng1,Ng8,Nf3,Nf6,Ng1,Ng8,Nf3,Nf6,Ng1,Ng8,Nf3,Nf6,Ng1,Ng8,Nf3,Nf6,Ng1,Ng8,Nf3,Nf6,Ng1,Ng8,Nf3,Nf6,Ng1,Ng8,Nf3,Nf6,Ng1,Ng8,Nf3,Nf6,Ng1,Ng8,Nf3,Nf6,Ng1,Ng8,*''])\<rparr>)"
    by (simp add: script_reads [OF reads_pgn files_record_world] knights_record_row df csv)
  show ?thesis
    using t unfolding run by simp
qed

text \<open>
  C7. On an input with no game the table has the 41 labels \<open>Ply 1\<close> to \<open>Ply 40\<close> and
  \<open>Result\<close> and no row, and \<open>data.csv\<close> is written with the line of the labels and
  nothing else.
\<close>

theorem empty_input_gives_header_only:
  assumes "reads rd f []" and "files w pgn_file_path = Some f"
  shows "pgn_to_dataframe rd san push (files w) pgn_file_path =
           Some (Inr \<lparr>columns = [''Ply 1'', ''Ply 2'', ''Ply 3'', ''Ply 4'', ''Ply 5'', ''Ply 6'', ''Ply 7'', ''Ply 8'', ''Ply 9'', ''Ply 10'', ''Ply 11'', ''Ply 12'', ''Ply 13'', ''Ply 14'', ''Ply 15'', ''Ply 16'', ''Ply 17'', ''Ply 18'', ''Ply 19'', ''Ply 20'', ''Ply 21'', ''Ply 22'', ''Ply 23'', ''Ply 24'', ''Ply 25'', ''Ply 26'', ''Ply 27'', ''Ply 28'', ''Ply 29'', ''Ply 30'', ''Ply 31'', ''Ply 32'', ''Ply 33'', ''Ply 34'', ''Ply 35'', ''Ply 36'', ''Ply 37'', ''Ply 38'', ''Ply 39'', ''Ply 40'', ''Result''], cells = []\<rparr>) \<and>
         length [''Ply 1'', ''Ply 2'', ''Ply 3'', ''Ply 4'', ''Ply 5'', ''Ply 6'', ''Ply 7'', ''Ply 8'', ''Ply 9'', ''Ply 10'', ''Ply 11'', ''Ply 12'', ''Ply 13'', ''Ply 14'', ''Ply 15'', ''Ply 16'', ''Ply 17'', ''Ply 18'', ''Ply 19'', ''Ply 20'', ''Ply 21'', ''Ply 22'', ''Ply 23'', ''Ply 24'', ''Ply 25'', ''Ply 26'', ''Ply 27'', ''Ply 28'', ''Ply 29'', ''Ply 30'', ''Ply 31'', ''Ply 32'', ''Ply 33'', ''Ply 34'', ''Ply 35'', ''Ply 36'', ''Ply 37'', ''Ply 38'', ''Ply 39'', ''Ply 40'', ''Result''] = 41 \<and>
         script rd san push w =
           Some (None, w\<lparr>printed := printed w @ [\<lparr>columns = column_names, cells = []\<rparr>],
                          written := (written w)(''data.csv'' \<mapsto> [''Ply 1,Ply 2,Ply 3,Ply 4,Ply 5,Ply 6,Ply 7,Ply 8,Ply 9,Ply 10,Ply 11,Ply 12,Ply 13,Ply 14,Ply 15,Ply 16,Ply 17,Ply 18,Ply 19,Ply 20,Ply 21,Ply 22,Ply 23,Ply 24,Ply 25,Ply 26,Ply 27,Ply 28,Ply 29,Ply 30,Ply 31,Ply 32,Ply 33,Ply 34,Ply 35,Ply 36,Ply 37,Ply 38,Ply 39,Ply 40,Result''])\<rparr>)"
proof -
  have df: "DataFrame [] column_names = Inr \<lparr>columns = column_names, cells = []\<rparr>"
    by (simp add: DataFrame_def)
  have csv: "to_csv \<lparr>columns = column_names, cells = []\<rparr> = [''Ply 1,Ply 2,Ply 3,Ply 4,Ply 5,Ply 6,Ply 7,Ply 8,Ply 9,Ply 10,Ply 11,Ply 12,Ply 13,Ply 14,Ply 15,Ply 16,Ply 17,Ply 18,Ply 19,Ply 20,Ply 21,Ply 22,Ply 23,Ply 24,Ply 25,Ply 26,Ply 27,Ply 28,Ply 29,Ply 30,Ply 31,Ply 32,Ply 33,Ply 34,Ply 35,Ply 36,Ply 37,Ply 38,Ply 39,Ply 40,Result'']"
    by (simp add: to_csv_def header_line)
  have "pgn_to_dataframe rd san push (files w) pgn_file_path =
      Some (Inr \<lparr>columns = column_names, cells = []\<rparr>)"
    using assms by (simp add: pgn_to_dataframe_reads df)
  moreover have "script rd san push w =
      Some (None, w\<lparr>printed := printed w @ [\<lparr>columns = column_names, cells = []\<rparr>],
                     written := (written w)(''data.csv'' \<mapsto> [''Ply 1,Ply 2,Ply 3,Ply 4,Ply 5,Ply 6,Ply 7,Ply 8,Ply 9,Ply 10,Ply 11,Ply 12,Ply 13,Ply 14,Ply 15,Ply 16,Ply 17,Ply 18,Ply 19,Ply 20,Ply 21,Ply 22,Ply 23,Ply 24,Ply 25,Ply 26,Ply 27,Ply 28,Ply 29,Ply 30,Ply 31,Ply 32,Ply 33,Ply 34,Ply 35,Ply 36,Ply 37,Ply 38,Ply 39,Ply 40,Result''])\<rparr>)"
    using assms by (simp add: script_reads df csv)
  moreover have "length column_names = 41"
    by (rule length_column_names)
  ultimately show ?thesis
    unfolding column_names_eq [symmetric] by blast
qed

theorem empty_input_gives_header_only_witness:
  "reads list_read_game [] ([] :: (string list, string) game list) \<and>
   files (world_of []) pgn_file_path = Some [] \<and>
   pgn_to_dataframe list_read_game written_san record_push (files (world_of [])) pgn_file_path =
     Some (Inr \<lparr>columns = [''Ply 1'', ''Ply 2'', ''Ply 3'', ''Ply 4'', ''Ply 5'', ''Ply 6'', ''Ply 7'', ''Ply 8'', ''Ply 9'', ''Ply 10'', ''Ply 11'', ''Ply 12'', ''Ply 13'', ''Ply 14'', ''Ply 15'', ''Ply 16'', ''Ply 17'', ''Ply 18'', ''Ply 19'', ''Ply 20'', ''Ply 21'', ''Ply 22'', ''Ply 23'', ''Ply 24'', ''Ply 25'', ''Ply 26'', ''Ply 27'', ''Ply 28'', ''Ply 29'', ''Ply 30'', ''Ply 31'', ''Ply 32'', ''Ply 33'', ''Ply 34'', ''Ply 35'', ''Ply 36'', ''Ply 37'', ''Ply 38'', ''Ply 39'', ''Ply 40'', ''Result''], cells = []\<rparr>) \<and>
   script list_read_game written_san record_push (world_of []) =
     Some (None, (world_of [])\<lparr>printed := printed (world_of []) @ [\<lparr>columns = column_names, cells = []\<rparr>],
                    written := (written (world_of []))(''data.csv'' \<mapsto> [''Ply 1,Ply 2,Ply 3,Ply 4,Ply 5,Ply 6,Ply 7,Ply 8,Ply 9,Ply 10,Ply 11,Ply 12,Ply 13,Ply 14,Ply 15,Ply 16,Ply 17,Ply 18,Ply 19,Ply 20,Ply 21,Ply 22,Ply 23,Ply 24,Ply 25,Ply 26,Ply 27,Ply 28,Ply 29,Ply 30,Ply 31,Ply 32,Ply 33,Ply 34,Ply 35,Ply 36,Ply 37,Ply 38,Ply 39,Ply 40,Result''])\<rparr>)"
proof -
  have r: "reads list_read_game [] ([] :: (string list, string) game list)"
    by (rule reads_list)
  have f: "files (world_of []) pgn_file_path = Some []"
    by (rule files_world_of)
  show ?thesis
    using r f empty_input_gives_header_only [OF r f, of written_san record_push]
    by blast
qed




text \<open>
  C3. On the input of the one game \<open>e4 e5 Nf3\<close> with the result \<open>1-0\<close> the row is
  \<open>e4, e5, Nf3, 1-0\<close>, four entries for 41 labels: the table constructor raises
  \<open>ValueError\<close>, the run ends there and \<open>data.csv\<close> is not written.
\<close>

theorem three_ply_file_raises:
  "script list_read_game written_san record_push (world_of [three_ply_game]) =
     Some (Some (ValueError 41 4), world_of [three_ply_game]) \<and>
   written (world_of [three_ply_game]) ''data.csv'' = None"
proof -
  have "DataFrame [[''e4'', ''e5'', ''Nf3'', ''1-0'']] column_names = Inl (ValueError 41 4)"
    by (simp add: DataFrame_def one_game_width length_column_names)
  then have "script list_read_game written_san record_push (world_of [three_ply_game]) =
      Some (Some (ValueError 41 4), world_of [three_ply_game])"
    by (simp add: script_reads [OF reads_list files_world_of] three_ply_row)
  moreover have "written (world_of [three_ply_game]) ''data.csv'' = None"
    by (simp add: world_of_def)
  ultimately show ?thesis by blast
qed

text \<open>
  C10. Two runs whose inputs hold the same games assemble the same rows and build the
  same table, and both leave the reading loop: whatever the handles, the paths and the
  rest of the two file systems are.
\<close>

theorem table_determined_by_games:
  assumes "reads rda fa gs" and "reads rdb fb gs"
    and "fsa pa = Some fa" and "fsb pb = Some fb"
  shows "read_loop rda san push fa [] = read_loop rdb san push fb [] \<and>
         read_loop rda san push fa [] \<noteq> None \<and>
         pgn_to_dataframe rda san push fsa pa = pgn_to_dataframe rdb san push fsb pb"
  using assms by (simp add: read_loop_reads pgn_to_dataframe_reads)

theorem table_determined_by_games_witness:
  "reads list_read_game [knights_game, three_ply_game] [knights_game, three_ply_game] \<and>
   files (world_of [knights_game, three_ply_game]) pgn_file_path =
     Some [knights_game, three_ply_game] \<and>
   [''copy.pgn'' \<mapsto> [knights_game, three_ply_game]] ''copy.pgn'' =
     Some [knights_game, three_ply_game] \<and>
   read_loop list_read_game written_san record_push [knights_game, three_ply_game] [] \<noteq> None \<and>
   pgn_to_dataframe list_read_game written_san record_push
       (files (world_of [knights_game, three_ply_game])) pgn_file_path =
     pgn_to_dataframe list_read_game written_san record_push
       [''copy.pgn'' \<mapsto> [knights_game, three_ply_game]] ''copy.pgn''"
proof -
  have r: "reads list_read_game [knights_game, three_ply_game] [knights_game, three_ply_game]"
    by (rule reads_list)
  have f1: "files (world_of [knights_game, three_ply_game]) pgn_file_path =
      Some [knights_game, three_ply_game]"
    by (rule files_world_of)
  have f2: "[''copy.pgn'' \<mapsto> [knights_game, three_ply_game]] ''copy.pgn'' =
      Some [knights_game, three_ply_game]"
    by simp
  show ?thesis
    using r f1 f2
      table_determined_by_games [where fsa = "files (world_of [knights_game, three_ply_game])"
        and pa = pgn_file_path and fsb = "[''copy.pgn'' \<mapsto> [knights_game, three_ply_game]]"
        and pb = "''copy.pgn''" and san = written_san and push = record_push, OF r r f1 f2]
    by blast
qed

text \<open>
  C6, as the script has it. The script renders the moves from \<open>game.board()\<close>, the
  position the game starts from. Let reading a notation give back the move it was
  rendered from, on every position where that move is legal, and let the moves of the
  game be legal from the game's board. Then replaying the rendered notations from the
  game's board gives the first 40 moves of the game. From the standard starting position
  it need not: the game of the rook ending, which starts from a FEN position, plays the
  rook from d4 to d8, and its notation read on the standard position is another move.
\<close>

theorem notation_round_trip:
  assumes law: "\<And>b mv. legal b mv \<Longrightarrow> parse_san b (san b mv) = Some mv"
    and legal: "playable legal push (board g) (mainline_moves g)"
  shows "replay parse_san push (board g)
           (render_moves san push (board g) [] (mainline_moves g)) =
         Some (take 40 (mainline_moves g))"
proof -
  have "playable legal push (board g) (take 40 (mainline_moves g))"
    using legal by (rule playable_take)
  from replay_notations [of legal parse_san san, OF law this]
  show ?thesis
    by (simp add: render_moves_notations)
qed

theorem notation_round_trip_witness:
  "playable placed_legal placed_push (board rook_ending_game) (mainline_moves rook_ending_game) \<and>
   replay placed_parse_san placed_push (board rook_ending_game)
       (render_moves placed_san placed_push (board rook_ending_game) []
          (mainline_moves rook_ending_game)) =
     Some [(''d4'', ''d8'')] \<and>
   playable written_legal record_push (board knights_game) (mainline_moves knights_game) \<and>
   length (mainline_moves knights_game) = 44 \<and>
   replay written_parse_san record_push (board knights_game)
       (render_moves written_san record_push (board knights_game) [] (mainline_moves knights_game)) =
     Some (take 40 (mainline_moves knights_game))"
proof -
  have law: "written_parse_san b (written_san b mv) = Some mv" if "written_legal b mv" for b mv
    using that by (simp add: written_parse_san_def written_san_def written_legal_def)
  have legal: "playable written_legal record_push (board knights_game) (mainline_moves knights_game)"
    by code_simp
  have len: "length (mainline_moves knights_game) = 44"
    by code_simp
  have rook: "replay placed_parse_san placed_push (board rook_ending_game)
       (render_moves placed_san placed_push (board rook_ending_game) []
          (mainline_moves rook_ending_game)) =
     Some [(''d4'', ''d8'')]"
    using notation_round_trip [of placed_legal placed_parse_san placed_san placed_push
        rook_ending_game, OF placed_law rook_ending_playable]
    by (simp add: rook_ending_moves)
  show ?thesis
    using rook_ending_playable rook legal len
      notation_round_trip [of written_legal written_parse_san written_san record_push
        knights_game, OF law legal]
    by blast
qed

theorem replay_from_standard_start_differs:
  "playable placed_legal placed_push (board rook_ending_game) (mainline_moves rook_ending_game) \<and>
   render_moves placed_san placed_push (board rook_ending_game) []
     (mainline_moves rook_ending_game) = [''Rd8''] \<and>
   replay placed_parse_san placed_push standard_placement
     (render_moves placed_san placed_push (board rook_ending_game) []
        (mainline_moves rook_ending_game)) = Some [(''a1'', ''d8'')] \<and>
   take 40 (mainline_moves rook_ending_game) = [(''d4'', ''d8'')] \<and>
   replay placed_parse_san placed_push standard_placement
     (render_moves placed_san placed_push (board rook_ending_game) []
        (mainline_moves rook_ending_game)) \<noteq> Some (take 40 (mainline_moves rook_ending_game))"
proof -
  have "replay placed_parse_san placed_push standard_placement [''Rd8''] = Some [(''a1'', ''d8'')]"
    by (simp add: placed_parse_san_def first_square_def standard_placement_def)
  with rook_ending_playable rook_ending_notations rook_ending_moves show ?thesis
    by simp
qed

end
